theory Spec2Isabelle
  imports Main
begin

section \<open>Data model\<close>

text \<open>
  The route handlers of \<^verbatim>\<open>src/app/(chat)/api/chat/route.ts\<close> are embedded as
  functions over an explicit world: the durable store (chats and message rows) and the
  chronological list of effects the handler performs (calls to the session resolver, to
  the store, writes to the client's data stream, console output).  Every collaborator
  that is imported by the route and does not live in that file is either a field of the
  environment \<open>env\<close> or a definition marked as modelled from the specification.
\<close>

datatype role = User | Assistant | Tool

datatype part =
    TextPart string
  | ToolCallPart string string
  | ToolResultPart string string string

text \<open>
  \<open>ToolCallPart toolCallId toolName\<close> and \<open>ToolResultPart toolCallId toolName result\<close>.
  A message of the \<^verbatim>\<open>ai\<close> package: the fields the route reads
  (\<^verbatim>\<open>message.id\<close>, \<^verbatim>\<open>message.role\<close>, \<^verbatim>\<open>message.content\<close>).
\<close>

record message =
  msg_id :: string
  msg_role :: role
  msg_content :: "part list"

text \<open>A message as the route hands it to \<^verbatim>\<open>saveMessages\<close>.\<close>

record row =
  row_id :: string
  row_chatId :: string
  row_role :: role
  row_content :: "part list"
  row_createdAt :: nat

record chat =
  chat_id :: string
  chat_userId :: string
  chat_title :: string

record user =
  user_id :: "string option"

record session =
  session_user :: "user option"

record model =
  model_id :: string
  apiIdentifier :: string

text \<open>The decoded body of a turn submission (lines 45--50).\<close>

record body =
  body_id :: string
  body_messages :: "message list"
  body_modelId :: string

text \<open>The tool names of lines 31--42.\<close>

datatype AllowedTools = getWalletAddress | createEvmWallet

definition tradingTools :: "AllowedTools list" where
  "tradingTools = [getWalletAddress, createEvmWallet]"

definition allTools :: "AllowedTools list" where
  "allTools = tradingTools @ []"

text \<open>The \<^verbatim>\<open>execute\<close> functions of the two tools (lines 96--115): the returned content.\<close>

fun tool_name :: "AllowedTools \<Rightarrow> string" where
  "tool_name getWalletAddress = ''getWalletAddress''"
| "tool_name createEvmWallet = ''createEvmWallet''"

fun tool_execute :: "AllowedTools \<Rightarrow> string" where
  "tool_execute getWalletAddress =
     ''No wallet address found, you should create a wallet first.''"
| "tool_execute createEvmWallet =
     ''Yes, I created an EVM wallet for you, it is 0x1234567890''"

section \<open>Helpers of \<^verbatim>\<open>@/lib/utils\<close>\<close>

text \<open>
  Modelled from the spec: \<^verbatim>\<open>getMostRecentUserMessage\<close> of \<^verbatim>\<open>@/lib/utils\<close> is not
  under src/.  The specification requires that the history "must contain at least one
  user-authored message" and calls the message that is persisted "the triggering user
  message": the helper yields the last message of the history whose role is
  \<open>User\<close>, and nothing when there is none.
\<close>

definition getMostRecentUserMessage :: "message list \<Rightarrow> message option" where
  "getMostRecentUserMessage messages =
     (case rev (filter (\<lambda>m. msg_role m = User) messages) of
        [] \<Rightarrow> None
      | m # _ \<Rightarrow> Some m)"

text \<open>
  Modelled from the spec: \<^verbatim>\<open>sanitizeResponseMessages\<close> of \<^verbatim>\<open>@/lib/utils\<close> is not
  under src/.  Section 4.2 of the specification: a pure transform over the ordered
  list of messages of one turn that "removes any message or message fragment that
  represents a tool call issued but never matched with a corresponding tool result" and
  "does not alter message order or any complete message".  A tool call is matched when
  some tool-result part of the list carries its call identifier.  A fragment is a
  tool-call part that is not matched; a message that holds such fragments loses them,
  and is removed when nothing else is left of it.
\<close>

fun result_id :: "part \<Rightarrow> string option" where
  "result_id (ToolResultPart cid _ _) = Some cid"
| "result_id _ = None"

definition toolResultIds :: "message list \<Rightarrow> string list" where
  "toolResultIds messages =
     concat (map (\<lambda>m. List.map_filter result_id (msg_content m)) messages)"

fun unmatched :: "string list \<Rightarrow> part \<Rightarrow> bool" where
  "unmatched ids (ToolCallPart cid _) = (cid \<notin> set ids)"
| "unmatched ids _ = False"

definition sanitize_message :: "string list \<Rightarrow> message \<Rightarrow> message option" where
  "sanitize_message ids m =
     (if list_ex (unmatched ids) (msg_content m) then
        (let kept = filter (\<lambda>p. \<not> unmatched ids p) (msg_content m)
         in if kept = [] then None else Some (m\<lparr>msg_content := kept\<rparr>))
      else Some m)"

definition sanitizeResponseMessages :: "message list \<Rightarrow> message list" where
  "sanitizeResponseMessages messages =
     List.map_filter (sanitize_message (toolResultIds messages)) messages"

section \<open>Collaborators and the world\<close>

text \<open>
  The points of the route at which a collaborator is awaited and may reject: the store
  calls (each "failing with a store-level error on I/O problems") and the title helper.
  Each point is passed at most once per request, so an environment that says for each
  point whether it fails covers every pattern of failures of one request.
\<close>

datatype call =
    GetChat_POST
  | GenerateTitle_POST
  | SaveChat_POST
  | SaveUserMessage_POST
  | SaveResponse_onFinish
  | GetChat_DELETE
  | DeleteChat_DELETE

datatype error = StoreError | TitleError | TypeError

text \<open>
  What the generative model decides at one step (section 4.3 of the specification):
  it emits text, calls one declared tool, signals completion, or the backend call fails.
\<close>

datatype decision =
    EmitText string
  | CallTool AllowedTools
  | SignalCompletion
  | BackendFailure

text \<open>
  The environment of one request: what \<^verbatim>\<open>auth()\<close> resolves, the table
  \<^verbatim>\<open>models\<close>, the system prompt, the title helper, the value \<^verbatim>\<open>generateUUID()\<close>
  returns at line 80, what \<^verbatim>\<open>new Date()\<close> returns before each write, which awaited
  calls fail, the model behind the engine and the identifiers the engine assigns to the
  messages it generates.
\<close>

record env =
  session_of :: "session option"
  models :: "model list"
  systemPrompt :: string
  title_of :: "message \<Rightarrow> string"
  uuid :: string
  clock :: "call \<Rightarrow> nat"
  fails :: "call \<Rightarrow> bool"
  llm :: "message list \<Rightarrow> decision"
  engine_id :: "nat \<Rightarrow> string"

text \<open>The events of the data stream (section 3 of the specification).\<close>

datatype stream_event =
    Metadata string string
  | TextDelta string
  | ToolCall string
  | ToolResult string string
  | Finish "message list"
  | ErrorEvent

text \<open>The options the route passes to \<^verbatim>\<open>streamText\<close> (lines 89--94).\<close>

record config =
  cfg_model :: string
  cfg_system :: string
  cfg_messages :: "message list"
  cfg_maxSteps :: nat
  cfg_activeTools :: "AllowedTools list"

datatype store_op =
    GetChat string
  | CreateChat chat
  | AppendMessages "row list"
  | DeleteChat string

text \<open>
  The effects of a handler, in the order it performs them.  A store call and the title
  call carry whether they succeeded.
\<close>

datatype effect =
    Auth
  | Store store_op bool
  | GenerateTitle message bool
  | StreamWrite stream_event
  | GenerationStart config
  | StreamClosed
  | StreamErrored
  | ConsoleLog string
  | ConsoleError string

record world =
  chats :: "string \<rightharpoonup> chat"
  messages :: "row list"
  effects :: "effect list"

text \<open>
  What the caller receives: a plain response with a status and a body, the streamed
  response of \<^verbatim>\<open>createDataStreamResponse\<close> (status 200), or the rejection of the
  handler's promise when an awaited call outside any \<^verbatim>\<open>try\<close> rejects.
\<close>

datatype response = Response nat string | DataStreamResponse | Thrown error

definition emit :: "effect \<Rightarrow> world \<Rightarrow> world" where
  "emit e w = w\<lparr>effects := effects w @ [e]\<rparr>"

definition auth :: "env \<Rightarrow> world \<Rightarrow> session option \<times> world" where
  "auth env w = (session_of env, emit Auth w)"

text \<open>JavaScript's truthiness of a \<^verbatim>\<open>string | null | undefined\<close>.\<close>

definition truthy :: "string option \<Rightarrow> bool" where
  "truthy s = (case s of None \<Rightarrow> False | Some x \<Rightarrow> x \<noteq> [])"

text \<open>
  Modelled from the spec: the queries of \<^verbatim>\<open>@/lib/db/queries\<close> are not under src/.
  Section 6 of the specification: \<open>getChat(id) -> Option<Chat>\<close>,
  \<open>createChat(id, ownerId, title) -> void\<close>, \<open>deleteChat(id) -> void\<close>,
  \<open>appendMessages(list<Message>) -> void\<close>, "each failing with a store-level error on
  I/O problems"; deletion "removes the chat and, transitively, its messages".
\<close>

definition getChatById :: "env \<Rightarrow> call \<Rightarrow> string \<Rightarrow> world \<Rightarrow> (error + chat option) \<times> world" where
  "getChatById env c i w =
     (if fails env c then (Inl StoreError, emit (Store (GetChat i) False) w)
      else (Inr (chats w i), emit (Store (GetChat i) True) w))"

definition saveChat :: "env \<Rightarrow> call \<Rightarrow> chat \<Rightarrow> world \<Rightarrow> (error + unit) \<times> world" where
  "saveChat env c ch w =
     (if fails env c then (Inl StoreError, emit (Store (CreateChat ch) False) w)
      else (Inr (), emit (Store (CreateChat ch) True)
                      (w\<lparr>chats := (chats w)(chat_id ch \<mapsto> ch)\<rparr>)))"

definition saveMessages :: "env \<Rightarrow> call \<Rightarrow> row list \<Rightarrow> world \<Rightarrow> (error + unit) \<times> world" where
  "saveMessages env c rows w =
     (if fails env c then (Inl StoreError, emit (Store (AppendMessages rows) False) w)
      else (Inr (), emit (Store (AppendMessages rows) True)
                      (w\<lparr>messages := messages w @ rows\<rparr>)))"

definition deleteChatById :: "env \<Rightarrow> call \<Rightarrow> string \<Rightarrow> world \<Rightarrow> (error + unit) \<times> world" where
  "deleteChatById env c i w =
     (if fails env c then (Inl StoreError, emit (Store (DeleteChat i) False) w)
      else (Inr (), emit (Store (DeleteChat i) True)
                      (w\<lparr>chats := (chats w)(i := None),
                         messages := filter (\<lambda>r. row_chatId r \<noteq> i) (messages w)\<rparr>)))"

text \<open>
  Modelled from the spec: \<^verbatim>\<open>generateTitleFromUserMessage\<close> of \<^verbatim>\<open>../../actions\<close> is
  not under src/.  Section 6: \<open>summarize(userMessage) -> string\<close>, "best-effort, single
  call, not retried".
\<close>

definition generateTitleFromUserMessage :: "env \<Rightarrow> message \<Rightarrow> world \<Rightarrow> (error + string) \<times> world" where
  "generateTitleFromUserMessage env m w =
     (if fails env GenerateTitle_POST then (Inl TitleError, emit (GenerateTitle m False) w)
      else (Inr (title_of env m), emit (GenerateTitle m True) w))"

section \<open>The generation engine\<close>

text \<open>
  Modelled from the spec: \<^verbatim>\<open>streamText\<close> belongs to the \<^verbatim>\<open>ai\<close> package and is not
  under src/.  Section 4.3 of the specification: the engine keeps a step budget; at each
  step the model emits text, calls exactly one declared tool (which runs to completion
  and whose result is merged into the stream as a tool-result event before the next
  step), or signals completion; a run ends with one finish event that carries the
  generated messages, or with an error event when the backend call fails.  The tools
  are the two of lines 95--116.  \<open>steps n\<close> runs at most \<open>n\<close> steps.
\<close>

fun steps :: "nat \<Rightarrow> (message list \<Rightarrow> decision) \<Rightarrow> (nat \<Rightarrow> string) \<Rightarrow> message list \<Rightarrow> message list
                \<Rightarrow> stream_event list \<times> message list option" where
  "steps 0 decide ids history generated = ([], Some generated)"
| "steps (Suc n) decide ids history generated =
     (case decide (history @ generated) of
        SignalCompletion \<Rightarrow> ([], Some generated)
      | BackendFailure \<Rightarrow> ([], None)
      | EmitText t \<Rightarrow>
          (case steps n decide ids history
                  (generated @ [\<lparr>msg_id = ids (length generated), msg_role = Assistant,
                                  msg_content = [TextPart t]\<rparr>]) of
             (evs, r) \<Rightarrow> (TextDelta t # evs, r))
      | CallTool tool \<Rightarrow>
          (case steps n decide ids history
                  (generated @
                     [\<lparr>msg_id = ids (length generated), msg_role = Assistant,
                       msg_content = [ToolCallPart (ids (length generated)) (tool_name tool)]\<rparr>,
                      \<lparr>msg_id = ids (Suc (length generated)), msg_role = Tool,
                       msg_content = [ToolResultPart (ids (length generated)) (tool_name tool)
                                        (tool_execute tool)]\<rparr>]) of
             (evs, r) \<Rightarrow>
               (ToolCall (tool_name tool) # ToolResult (tool_name tool) (tool_execute tool) # evs,
                r)))"

definition streamText :: "config \<Rightarrow> (message list \<Rightarrow> decision) \<Rightarrow> (nat \<Rightarrow> string)
                            \<Rightarrow> stream_event list \<times> message list option" where
  "streamText cfg decide ids =
     (case steps (cfg_maxSteps cfg) decide ids (cfg_messages cfg) [] of
        (evs, Some generated) \<Rightarrow> (evs @ [Finish generated], Some generated)
      | (evs, None) \<Rightarrow> (evs @ [ErrorEvent], None))"

text \<open>
  Modelled from the spec: how the data stream ends is decided inside the \<^verbatim>\<open>ai\<close>
  package.  The engine calls \<^verbatim>\<open>onFinish\<close> after its finish event and awaits it; the
  stream then "reaches a successful terminal state" when the callback returns.  So that
  a failure of the callback has somewhere to show, a callback that throws puts the
  stream into its error state.
\<close>

definition finish :: "(error + unit) \<times> world \<Rightarrow> world" where
  "finish r = (case r of (Inl e, w) \<Rightarrow> emit StreamErrored w | (Inr u, w) \<Rightarrow> emit StreamClosed w)"

definition relay :: "stream_event list \<Rightarrow> world \<Rightarrow> world" where
  "relay evs w = foldl (\<lambda>w' e. emit (StreamWrite e) w') w evs"

section \<open>The turn submission: \<^verbatim>\<open>POST\<close>\<close>

text \<open>The options of lines 89--94: \<^verbatim>\<open>maxSteps: 5\<close>, all tools active.\<close>

definition turn_config :: "env \<Rightarrow> body \<Rightarrow> model \<Rightarrow> config" where
  "turn_config env b m =
     \<lparr>cfg_model = apiIdentifier m, cfg_system = systemPrompt env,
      cfg_messages = body_messages b, cfg_maxSteps = 5, cfg_activeTools = allTools\<rparr>"

text \<open>
  The callback of lines 117--140.  The body of the \<^verbatim>\<open>try\<close> sanitizes the response
  messages and saves them under the engine's identifiers; the \<^verbatim>\<open>catch\<close> logs and
  returns.
\<close>

definition response_row :: "env \<Rightarrow> string \<Rightarrow> message \<Rightarrow> row" where
  "response_row env i m =
     \<lparr>row_id = msg_id m, row_chatId = i, row_role = msg_role m, row_content = msg_content m,
      row_createdAt = clock env SaveResponse_onFinish\<rparr>"

definition onFinish :: "env \<Rightarrow> user \<Rightarrow> string \<Rightarrow> message list \<Rightarrow> world \<Rightarrow> (error + unit) \<times> world" where
  "onFinish env u i response_messages w =
     (if truthy (user_id u) then
        (case saveMessages env SaveResponse_onFinish
                (map (response_row env i) (sanitizeResponseMessages response_messages)) w of
           (Inl e, w') \<Rightarrow> (Inr (), emit (ConsoleError ''Failed to save chat'') w')
         | (Inr x, w') \<Rightarrow> (Inr (), w'))
      else (Inr (), w))"

text \<open>
  The \<^verbatim>\<open>execute\<close> function of lines 83--148: the metadata event, the start of the
  generation, the console line, and the engine's events merged into the data stream.
  A failed generation writes its error event and the stream is closed.
\<close>

definition execute :: "env \<Rightarrow> user \<Rightarrow> body \<Rightarrow> model \<Rightarrow> string \<Rightarrow> world \<Rightarrow> world" where
  "execute env u b m userMessageId w =
     (let w1 = emit (StreamWrite (Metadata ''user-message-id'' userMessageId)) w;
          w2 = emit (GenerationStart (turn_config env b m)) w1;
          w3 = emit (ConsoleLog ''carmen:chat:api:chat:finish'') w2
      in case streamText (turn_config env b m) (llm env) (engine_id env) of
           (events, None) \<Rightarrow> emit StreamClosed (relay events w3)
         | (events, Some response_messages) \<Rightarrow>
             finish (onFinish env u (body_id b) response_messages (relay events w3)))"

text \<open>The row of line 78: the user message with \<^verbatim>\<open>createdAt\<close> and \<^verbatim>\<open>chatId\<close>.\<close>

definition user_row :: "env \<Rightarrow> string \<Rightarrow> message \<Rightarrow> row" where
  "user_row env i m =
     \<lparr>row_id = msg_id m, row_chatId = i, row_role = msg_role m, row_content = msg_content m,
      row_createdAt = clock env SaveUserMessage_POST\<rparr>"

text \<open>Lines 70--75: the chat is looked up and, when absent, titled and created.\<close>

definition ensure_chat :: "env \<Rightarrow> string \<Rightarrow> string \<Rightarrow> message \<Rightarrow> world \<Rightarrow> (error + unit) \<times> world" where
  "ensure_chat env i uid userMessage w =
     (case getChatById env GetChat_POST i w of
        (Inl e, w1) \<Rightarrow> (Inl e, w1)
      | (Inr (Some ch), w1) \<Rightarrow> (Inr (), w1)
      | (Inr None, w1) \<Rightarrow>
          (case generateTitleFromUserMessage env userMessage w1 of
             (Inl e, w2) \<Rightarrow> (Inl e, w2)
           | (Inr title, w2) \<Rightarrow>
               saveChat env SaveChat_POST
                 \<lparr>chat_id = i, chat_userId = uid, chat_title = title\<rparr> w2))"

text \<open>Lines 70--150, entered once the three checks have passed.\<close>

definition submit :: "env \<Rightarrow> user \<Rightarrow> string \<Rightarrow> body \<Rightarrow> model \<Rightarrow> message \<Rightarrow> world \<Rightarrow> response \<times> world" where
  "submit env u uid b m userMessage w =
     (case ensure_chat env (body_id b) uid userMessage w of
        (Inl e, w1) \<Rightarrow> (Thrown e, w1)
      | (Inr x, w1) \<Rightarrow>
          (case saveMessages env SaveUserMessage_POST [user_row env (body_id b) userMessage] w1 of
             (Inl e, w2) \<Rightarrow> (Thrown e, w2)
           | (Inr y, w2) \<Rightarrow> (DataStreamResponse, execute env u b m (uuid env) w2)))"

text \<open>The handler of lines 44--150.\<close>

definition POST :: "env \<Rightarrow> body \<Rightarrow> world \<Rightarrow> response \<times> world" where
  "POST env b w =
     (case auth env w of
        (None, w1) \<Rightarrow> (Response 401 ''Unauthorized'', w1)
      | (Some s, w1) \<Rightarrow>
          (case session_user s of
             None \<Rightarrow> (Response 401 ''Unauthorized'', w1)
           | Some u \<Rightarrow>
               (case user_id u of
                  None \<Rightarrow> (Response 401 ''Unauthorized'', w1)
                | Some uid \<Rightarrow>
                    if uid = [] then (Response 401 ''Unauthorized'', w1)
                    else
                      (case find (\<lambda>m. model_id m = body_modelId b) (models env) of
                         None \<Rightarrow> (Response 404 ''Model not found'', w1)
                       | Some m \<Rightarrow>
                           (case getMostRecentUserMessage (body_messages b) of
                              None \<Rightarrow> (Response 400 ''No user message found'', w1)
                            | Some userMessage \<Rightarrow> submit env u uid b m userMessage w1)))))"

section \<open>The deletion: \<^verbatim>\<open>DELETE\<close>\<close>

text \<open>
  The body of the \<^verbatim>\<open>try\<close> of lines 166--175.  Reading \<^verbatim>\<open>chat.userId\<close> of a chat
  that was not found throws a \<^verbatim>\<open>TypeError\<close>.
\<close>

definition DELETE_try :: "env \<Rightarrow> user \<Rightarrow> string \<Rightarrow> world \<Rightarrow> (error + response) \<times> world" where
  "DELETE_try env u i w =
     (case getChatById env GetChat_DELETE i w of
        (Inl e, w1) \<Rightarrow> (Inl e, w1)
      | (Inr None, w1) \<Rightarrow> (Inl TypeError, w1)
      | (Inr (Some ch), w1) \<Rightarrow>
          if Some (chat_userId ch) \<noteq> user_id u then (Inr (Response 401 ''Unauthorized''), w1)
          else
            (case deleteChatById env DeleteChat_DELETE i w1 of
               (Inl e, w2) \<Rightarrow> (Inl e, w2)
             | (Inr x, w2) \<Rightarrow> (Inr (Response 200 ''Chat deleted''), w2)))"

text \<open>
  The handler of lines 152--181; its argument is the \<^verbatim>\<open>id\<close> parameter of the query
  string, absent or present.  \<^verbatim>\<open>!id\<close> holds of an absent and of an empty parameter.
\<close>

definition DELETE :: "env \<Rightarrow> string option \<Rightarrow> world \<Rightarrow> response \<times> world" where
  "DELETE env id_param w =
     (case id_param of
        None \<Rightarrow> (Response 404 ''Not Found'', w)
      | Some i \<Rightarrow>
          if i = [] then (Response 404 ''Not Found'', w)
          else
            (case auth env w of
               (None, w1) \<Rightarrow> (Response 401 ''Unauthorized'', w1)
             | (Some s, w1) \<Rightarrow>
                 (case session_user s of
                    None \<Rightarrow> (Response 401 ''Unauthorized'', w1)
                  | Some u \<Rightarrow>
                      (case DELETE_try env u i w1 of
                         (Inl e, w2) \<Rightarrow>
                           (Response 500 ''An error occurred while processing your request'', w2)
                       | (Inr r, w2) \<Rightarrow> (r, w2)))))"

section \<open>Observations\<close>

text \<open>The effects a handler added to the world \<open>w\<close> on its way to \<open>w'\<close>.\<close>

definition trace :: "world \<Rightarrow> world \<Rightarrow> effect list" where
  "trace w w' = drop (length (effects w)) (effects w')"

text \<open>
  The effects that reach the client or the engine: a write to the data stream, the start
  of the generation, the end of the stream.  All other effects are calls to the session
  resolver, the store, the title helper and the console.
\<close>

fun outward :: "effect \<Rightarrow> bool" where
  "outward (StreamWrite ev) = True"
| "outward (GenerationStart cfg) = True"
| "outward StreamClosed = True"
| "outward StreamErrored = True"
| "outward e = False"

text \<open>What the client observes of a trace: the stream's events and how the stream ends.\<close>

fun client_visible :: "effect \<Rightarrow> bool" where
  "client_visible (StreamWrite ev) = True"
| "client_visible StreamClosed = True"
| "client_visible StreamErrored = True"
| "client_visible e = False"

definition client_view :: "effect list \<Rightarrow> effect list" where
  "client_view t = filter client_visible t"

fun is_tool_call :: "stream_event \<Rightarrow> bool" where
  "is_tool_call (ToolCall name) = True"
| "is_tool_call ev = False"

fun tool_call_write :: "effect \<Rightarrow> bool" where
  "tool_call_write (StreamWrite ev) = is_tool_call ev"
| "tool_call_write e = False"


text \<open>The condition of line 54.\<close>

definition unauthenticated :: "session option \<Rightarrow> bool" where
  "unauthenticated so =
     (case so of
        None \<Rightarrow> True
      | Some s \<Rightarrow> (case session_user s of None \<Rightarrow> True | Some u \<Rightarrow> \<not> truthy (user_id u)))"

text \<open>
  The checks of lines 52--68 as one function: the user, the user's id, the model and the
  most recent user message of a request that passes them.
\<close>

definition preconditions :: "env \<Rightarrow> body \<Rightarrow> (user \<times> string \<times> model \<times> message) option" where
  "preconditions env b =
     (case session_of env of
        None \<Rightarrow> None
      | Some s \<Rightarrow>
          (case session_user s of
             None \<Rightarrow> None
           | Some u \<Rightarrow>
               (case user_id u of
                  None \<Rightarrow> None
                | Some uid \<Rightarrow>
                    if uid = [] then None
                    else
                      (case find (\<lambda>m. model_id m = body_modelId b) (models env) of
                         None \<Rightarrow> None
                       | Some m \<Rightarrow>
                           (case getMostRecentUserMessage (body_messages b) of
                              None \<Rightarrow> None
                            | Some um \<Rightarrow> Some (u, uid, m, um))))))"

section \<open>A concrete request\<close>

text \<open>
  The scenario of section 8 of the specification: the history holds one user message,
  the model calls \<^verbatim>\<open>getWalletAddress\<close> and then completes.  The caller is
  \<open>alice\<close>; the store \<open>ex_store\<close> holds a chat of \<open>bob\<close>.
\<close>

definition ex_user :: user where
  "ex_user = \<lparr>user_id = Some ''alice''\<rparr>"

definition ex_session :: session where
  "ex_session = \<lparr>session_user = Some ex_user\<rparr>"

definition ex_model :: model where
  "ex_model = \<lparr>model_id = ''gpt'', apiIdentifier = ''gpt-api''\<rparr>"

definition ex_message :: message where
  "ex_message = \<lparr>msg_id = ''u1'', msg_role = User, msg_content = [TextPart ''get my wallet'']\<rparr>"

definition ex_llm :: "message list \<Rightarrow> decision" where
  "ex_llm history = (if length history = 1 then CallTool getWalletAddress else SignalCompletion)"

definition ex_text_llm :: "message list \<Rightarrow> decision" where
  "ex_text_llm history = (if length history = 1 then EmitText ''Hello'' else SignalCompletion)"

definition ex_eager_llm :: "message list \<Rightarrow> decision" where
  "ex_eager_llm history = CallTool getWalletAddress"

definition ex_ids :: "nat \<Rightarrow> string" where
  "ex_ids n = ''msg'' @ replicate n CHR ''+''"

definition ex_env :: env where
  "ex_env = \<lparr>session_of = Some ex_session, models = [ex_model], systemPrompt = ''be kind'',
              title_of = (\<lambda>m. ''Wallet''), uuid = ''uuid-1'', clock = (\<lambda>c. 0),
              fails = (\<lambda>c. False), llm = ex_llm, engine_id = ex_ids\<rparr>"

definition ex_text_env :: env where
  "ex_text_env = ex_env\<lparr>llm := ex_text_llm\<rparr>"

definition ex_body :: body where
  "ex_body = \<lparr>body_id = ''c1'', body_messages = [ex_message], body_modelId = ''gpt''\<rparr>"

definition ex_world :: world where
  "ex_world = \<lparr>chats = Map.empty, messages = [], effects = []\<rparr>"

definition ex_chat :: chat where
  "ex_chat = \<lparr>chat_id = ''c1'', chat_userId = ''bob'', chat_title = ''Wallet''\<rparr>"

definition ex_row :: row where
  "ex_row = \<lparr>row_id = ''u0'', row_chatId = ''c1'', row_role = User,
             row_content = [TextPart ''hello''], row_createdAt = 0\<rparr>"

definition ex_store :: world where
  "ex_store = \<lparr>chats = [''c1'' \<mapsto> ex_chat], messages = [ex_row], effects = []\<rparr>"

definition ex_user_row :: row where
  "ex_user_row = \<lparr>row_id = ''u1'', row_chatId = ''c1'', row_role = User,
                  row_content = [TextPart ''get my wallet''], row_createdAt = 0\<rparr>"

definition ex_before :: "effect list" where
  "ex_before =
     [Auth, Store (GetChat ''c1'') True, GenerateTitle ex_message True,
      Store (CreateChat \<lparr>chat_id = ''c1'', chat_userId = ''alice'', chat_title = ''Wallet''\<rparr>) True,
      Store (AppendMessages [ex_user_row]) True]"



definition ex_generated :: "message list" where
  "ex_generated =
     [\<lparr>msg_id = ''msg'', msg_role = Assistant,
       msg_content = [ToolCallPart ''msg'' ''getWalletAddress'']\<rparr>,
      \<lparr>msg_id = ''msg+'', msg_role = Tool,
       msg_content = [ToolResultPart ''msg'' ''getWalletAddress''
          ''No wallet address found, you should create a wallet first.'']\<rparr>]"

definition ex_events :: "stream_event list" where
  "ex_events =
     [ToolCall ''getWalletAddress'',
      ToolResult ''getWalletAddress''
        ''No wallet address found, you should create a wallet first.'',
      Finish ex_generated]"

definition ex_after :: "effect list" where
  "ex_after =
     [GenerationStart (turn_config ex_env ex_body ex_model),
      ConsoleLog ''carmen:chat:api:chat:finish''] @ map StreamWrite ex_events @
     [Store (AppendMessages (map (response_row ex_env ''c1'') ex_generated)) True,
      StreamClosed]"

section \<open>Properties of the sanitizer\<close>

lemma result_id_unmatched: "unmatched ids p \<Longrightarrow> result_id p = None"
  by (cases p) simp_all

lemma result_ids_filter:
  "List.map_filter result_id (filter (\<lambda>p. \<not> unmatched ids p) ps) = List.map_filter result_id ps"
  by (induction ps) (auto simp: result_id_unmatched split: option.splits)

lemma sanitize_message_results:
  "sanitize_message ids m = Some m' \<Longrightarrow>
     List.map_filter result_id (msg_content m') = List.map_filter result_id (msg_content m)"
  by (auto simp: sanitize_message_def Let_def result_ids_filter split: if_splits)

lemma sanitize_message_dropped:
  assumes "sanitize_message ids m = None"
  shows "List.map_filter result_id (msg_content m) = []"
proof -
  from assms have "filter (\<lambda>p. \<not> unmatched ids p) (msg_content m) = []"
    by (simp add: sanitize_message_def Let_def split: if_splits)
  then have "List.map_filter result_id (filter (\<lambda>p. \<not> unmatched ids p) (msg_content m)) = []"
    by simp
  then show ?thesis by (simp add: result_ids_filter)
qed

lemma toolResultIds_map_filter:
  "toolResultIds (List.map_filter (sanitize_message ids) ms) = toolResultIds ms"
proof (induction ms)
  case Nil
  show ?case by simp
next
  case (Cons m ms)
  show ?case
  proof (cases "sanitize_message ids m")
    case None
    with Cons sanitize_message_dropped [OF None] show ?thesis
      by (simp add: toolResultIds_def)
  next
    case (Some m')
    with Cons sanitize_message_results [OF Some] show ?thesis
      by (simp add: toolResultIds_def)
  qed
qed

lemma toolResultIds_sanitize:
  "toolResultIds (sanitizeResponseMessages ms) = toolResultIds ms"
  by (simp add: sanitizeResponseMessages_def toolResultIds_map_filter)

lemma sanitize_message_clean:
  "sanitize_message ids m = Some m' \<Longrightarrow> \<not> list_ex (unmatched ids) (msg_content m')"
  by (auto simp: sanitize_message_def Let_def list_ex_iff split: if_splits)

lemma sanitize_message_fixed:
  "sanitize_message ids m = Some m' \<Longrightarrow> sanitize_message ids m' = Some m'"
  using sanitize_message_clean [of ids m m'] by (simp add: sanitize_message_def)

lemma map_filter_fixed:
  "List.map_filter (sanitize_message ids) (List.map_filter (sanitize_message ids) ms)
     = List.map_filter (sanitize_message ids) ms"
proof (induction ms)
  case Nil
  show ?case by simp
next
  case (Cons m ms)
  then show ?case
    by (cases "sanitize_message ids m")
       (simp_all add: sanitize_message_fixed)
qed




section \<open>Effects, the engine and the handlers\<close>

lemma emit_simps [simp]:
  "effects (emit e w) = effects w @ [e]"
  "chats (emit e w) = chats w"
  "messages (emit e w) = messages w"
  by (simp_all add: emit_def)

lemma relay_simps [simp]:
  "effects (relay evs w) = effects w @ map StreamWrite evs"
  "chats (relay evs w) = chats w"
  "messages (relay evs w) = messages w"
  by (induction evs arbitrary: w) (simp_all add: relay_def)

lemma trace_append [simp]: "effects w' = effects w @ t \<Longrightarrow> trace w w' = t"
  by (simp add: trace_def)

lemma steps_events:
  "ErrorEvent \<notin> set (fst (steps n decide ids history generated))
   \<and> (\<forall>ms. Finish ms \<notin> set (fst (steps n decide ids history generated)))
   \<and> (\<forall>k v. Metadata k v \<notin> set (fst (steps n decide ids history generated)))"
  by (induction n arbitrary: generated) (auto simp: split_beta split: decision.splits)

lemma steps_tool_calls:
  "length (filter is_tool_call (fst (steps n decide ids history generated))) \<le> n"
  by (induction n arbitrary: generated) (auto simp: split_beta le_SucI split: decision.splits)


lemma streamText_cases:
  obtains (finished) evs generated where
      "streamText cfg decide ids = (evs @ [Finish generated], Some generated)"
      "steps (cfg_maxSteps cfg) decide ids (cfg_messages cfg) [] = (evs, Some generated)"
  | (failed) evs where
      "streamText cfg decide ids = (evs @ [ErrorEvent], None)"
      "steps (cfg_maxSteps cfg) decide ids (cfg_messages cfg) [] = (evs, None)"
  by (cases "steps (cfg_maxSteps cfg) decide ids (cfg_messages cfg) []")
     (auto simp: streamText_def split: option.splits)


lemma execute_finished:
  assumes "streamText (turn_config env b m) (llm env) (engine_id env) = (events, Some ms)"
    and "truthy (user_id u)"
  shows "effects (execute env u b m k w) =
           effects w @ [StreamWrite (Metadata ''user-message-id'' k),
                        GenerationStart (turn_config env b m),
                        ConsoleLog ''carmen:chat:api:chat:finish'']
                     @ map StreamWrite events
                     @ (if fails env SaveResponse_onFinish
                        then [Store (AppendMessages (map (response_row env (body_id b))
                                       (sanitizeResponseMessages ms))) False,
                              ConsoleError ''Failed to save chat'', StreamClosed]
                        else [Store (AppendMessages (map (response_row env (body_id b))
                                       (sanitizeResponseMessages ms))) True, StreamClosed])"
    and "messages (execute env u b m k w) =
           messages w @ (if fails env SaveResponse_onFinish then []
                         else map (response_row env (body_id b)) (sanitizeResponseMessages ms))"
    and "chats (execute env u b m k w) = chats w"
  using assms by (simp_all add: execute_def onFinish_def saveMessages_def finish_def Let_def)

lemma execute_store:
  "chats (execute env u b m k w) = chats w
   \<and> (\<exists>rows. messages (execute env u b m k w) = messages w @ rows)"
  by (auto simp: execute_def onFinish_def saveMessages_def finish_def Let_def
           split: prod.splits option.splits)

lemma execute_first:
  "\<exists>post. effects (execute env u b m k w) =
      effects w @ [StreamWrite (Metadata ''user-message-id'' k),
                   GenerationStart (turn_config env b m)] @ post"
  by (auto simp: execute_def onFinish_def saveMessages_def finish_def Let_def
           split: prod.splits option.splits)

lemma execute_tool_calls:
  "length (filter tool_call_write (trace w (execute env u b m k w))) \<le> 5"
proof -
  have t: "filter tool_call_write (map StreamWrite evs) = map StreamWrite (filter is_tool_call evs)"
    for evs by (induction evs) simp_all
  have five: "length (filter is_tool_call
      (fst (steps (cfg_maxSteps (turn_config env b m)) (llm env) (engine_id env)
              (cfg_messages (turn_config env b m)) []))) \<le> 5"
    using steps_tool_calls [of 5 "llm env" "engine_id env" "cfg_messages (turn_config env b m)" "[]"]
    by (simp add: turn_config_def)
  show ?thesis
  proof (rule streamText_cases [of "turn_config env b m" "llm env" "engine_id env"])
    fix evs generated
    assume s: "streamText (turn_config env b m) (llm env) (engine_id env)
                 = (evs @ [Finish generated], Some generated)"
      and st: "steps (cfg_maxSteps (turn_config env b m)) (llm env) (engine_id env)
                 (cfg_messages (turn_config env b m)) [] = (evs, Some generated)"
    from five st have "length (filter is_tool_call evs) \<le> 5" by simp
    with s show ?thesis
      by (simp add: execute_def onFinish_def saveMessages_def finish_def Let_def trace_def t)
  next
    fix evs
    assume s: "streamText (turn_config env b m) (llm env) (engine_id env)
                 = (evs @ [ErrorEvent], None)"
      and st: "steps (cfg_maxSteps (turn_config env b m)) (llm env) (engine_id env)
                 (cfg_messages (turn_config env b m)) [] = (evs, None)"
    from five st have "length (filter is_tool_call evs) \<le> 5" by simp
    with s show ?thesis
      by (simp add: execute_def trace_def t)
  qed
qed

lemma ensure_chat_failed:
  assumes "ensure_chat env i uid um w = (Inl e, w1)"
  shows "chats w1 = chats w \<and> messages w1 = messages w
         \<and> (\<exists>t. effects w1 = effects w @ t \<and> (\<forall>x\<in>set t. \<not> outward x))"
  using assms
  by (auto simp: ensure_chat_def getChatById_def generateTitleFromUserMessage_def saveChat_def
           split: if_splits option.splits)

lemma ensure_chat_done:
  assumes "ensure_chat env i uid um w = (Inr x, w1)"
  shows "messages w1 = messages w \<and> chats w1 i \<noteq> None
         \<and> (\<exists>t. effects w1 = effects w @ t \<and> (\<forall>x\<in>set t. \<not> outward x)
                \<and> (chats w i = None \<longrightarrow>
                      Store (CreateChat \<lparr>chat_id = i, chat_userId = uid,
                                         chat_title = title_of env um\<rparr>) True \<in> set t))"
  using assms
  by (auto simp: ensure_chat_def getChatById_def generateTitleFromUserMessage_def saveChat_def
           split: if_splits option.splits)

lemma submit_refused:
  assumes "fst (submit env u uid b m um w) \<noteq> DataStreamResponse"
  shows "\<exists>t. effects (snd (submit env u uid b m um w)) = effects w @ t
             \<and> (\<forall>x\<in>set t. \<not> outward x)"
proof (cases "ensure_chat env (body_id b) uid um w")
  case (Pair r w1)
  show ?thesis
  proof (cases r)
    case (Inl e)
    with Pair ensure_chat_failed [of env "body_id b" uid um w e w1] show ?thesis
      by (auto simp: submit_def)
  next
    case (Inr x)
    with Pair ensure_chat_done [of env "body_id b" uid um w x w1] assms show ?thesis
      by (auto simp: submit_def saveMessages_def split: if_splits)
  qed
qed

lemma submit_streams:
  assumes "fst (submit env u uid b m um w) = DataStreamResponse"
  shows "\<exists>w2 t. snd (submit env u uid b m um w) = execute env u b m (uuid env) w2
           \<and> effects w2 = effects w @ t @ [Store (AppendMessages [user_row env (body_id b) um]) True]
           \<and> (\<forall>x\<in>set t. \<not> outward x)
           \<and> (chats w (body_id b) = None \<longrightarrow>
                 Store (CreateChat \<lparr>chat_id = body_id b, chat_userId = uid,
                                    chat_title = title_of env um\<rparr>) True \<in> set t)
           \<and> messages w2 = messages w @ [user_row env (body_id b) um]
           \<and> chats w2 (body_id b) \<noteq> None"
proof (cases "ensure_chat env (body_id b) uid um w")
  case (Pair r w1)
  show ?thesis
  proof (cases r)
    case (Inl e)
    with Pair assms show ?thesis by (simp add: submit_def)
  next
    case (Inr x)
    with Pair ensure_chat_done [of env "body_id b" uid um w x w1] assms show ?thesis
      by (auto simp: submit_def saveMessages_def split: if_splits)
  qed
qed

lemma submit_fails:
  assumes "fst (submit env u uid b m um w) = DataStreamResponse"
  shows "\<exists>w2 t. snd (submit env u uid b m um w) = execute env u b m (uuid env) w2
           \<and> snd (submit (env\<lparr>fails := (fails env)(SaveResponse_onFinish := x)\<rparr>) u uid b m um w)
               = execute (env\<lparr>fails := (fails env)(SaveResponse_onFinish := x)\<rparr>) u b m (uuid env) w2
           \<and> effects w2 = effects w @ t \<and> (\<forall>y\<in>set t. \<not> outward y)"
  using assms
  by (auto simp: submit_def ensure_chat_def getChatById_def generateTitleFromUserMessage_def
                 saveChat_def saveMessages_def user_row_def
           split: if_splits option.splits)

lemma POST_passed:
  "preconditions env b = Some (u, uid, m, um) \<Longrightarrow>
     POST env b w = submit env u uid b m um (emit Auth w) \<and> user_id u = Some uid \<and> uid \<noteq> []"
  by (auto simp: preconditions_def POST_def auth_def split: option.splits if_splits)

lemma POST_rejected:
  "preconditions env b = None \<Longrightarrow>
     snd (POST env b w) = emit Auth w \<and> (\<exists>n msg. fst (POST env b w) = Response n msg)"
  by (auto simp: preconditions_def POST_def auth_def split: option.splits if_splits)

lemma POST_streams:
  assumes "fst (POST env b w) = DataStreamResponse"
  obtains u uid m um where "preconditions env b = Some (u, uid, m, um)"
proof (cases "preconditions env b")
  case None
  from POST_rejected [OF None, of w] assms show ?thesis by auto
next
  case (Some p)
  then show ?thesis using that by (cases p) auto
qed

lemma preconditions_find:
  "preconditions env b = Some (u, uid, m, um) \<Longrightarrow>
     find (\<lambda>m. model_id m = body_modelId b) (models env) = Some m
     \<and> truthy (user_id u)"
  by (auto simp: preconditions_def truthy_def split: option.splits if_splits)

lemma preconditions_fails [simp]:
  "preconditions (env\<lparr>fails := f\<rparr>) b = preconditions env b"
  by (simp add: preconditions_def cong: option.case_cong if_cong)

lemma turn_config_fails [simp]:
  "turn_config (env\<lparr>fails := f\<rparr>) b m = turn_config env b m"
  by (simp add: turn_config_def)

lemma find_None: "find P xs = None \<longleftrightarrow> (\<forall>x\<in>set xs. \<not> P x)"
  by (induction xs) auto

lemma most_recent_user:
  assumes "getMostRecentUserMessage ms = Some m"
  shows "m \<in> set ms \<and> msg_role m = User"
proof -
  from assms obtain rest where "rev (filter (\<lambda>m. msg_role m = User) ms) = m # rest"
    by (auto simp: getMostRecentUserMessage_def split: list.splits)
  then have "m \<in> set (rev (filter (\<lambda>m. msg_role m = User) ms))" by simp
  then show ?thesis by simp
qed

lemma no_user_message:
  "(\<forall>m\<in>set ms. msg_role m \<noteq> User) \<Longrightarrow> getMostRecentUserMessage ms = None"
  by (simp add: getMostRecentUserMessage_def filter_False)

lemma prefix_before:
  assumes "pre @ x # post = quiet @ rest" and "P x" and "\<forall>y\<in>set quiet. \<not> P y"
  shows "\<exists>r. pre = quiet @ r"
proof -
  from assms(1) obtain us where
    "(pre = quiet @ us \<and> us @ x # post = rest) \<or> (pre @ us = quiet \<and> x # post = us @ rest)"
    by (auto simp: append_eq_append_conv2)
  then show ?thesis
  proof
    assume "pre = quiet @ us \<and> us @ x # post = rest"
    then show ?thesis by blast
  next
    assume a: "pre @ us = quiet \<and> x # post = us @ rest"
    show ?thesis
    proof (cases us)
      case Nil
      with a show ?thesis by simp
    next
      case (Cons y ys)
      with a have "x \<in> set quiet" by auto
      with assms(2,3) show ?thesis by blast
    qed
  qed
qed

lemma quiet_prefix:
  assumes "pre @ x # post = quiet @ rest" and "outward x" and "\<forall>y\<in>set quiet. \<not> outward y"
  shows "\<exists>r. pre = quiet @ r"
  using prefix_before [of pre x post quiet rest outward] assms by blast


lemma client_view_quiet: "\<forall>y\<in>set t. \<not> outward y \<Longrightarrow> client_view t = []"
proof (induction t)
  case Nil
  show ?case by (simp add: client_view_def)
next
  case (Cons a t)
  then show ?case by (cases a) (simp_all add: client_view_def)
qed

lemma client_view_append [simp]: "client_view (xs @ ys) = client_view xs @ client_view ys"
  by (simp add: client_view_def)

lemma client_view_writes [simp]: "client_view (map StreamWrite evs) = map StreamWrite evs"
  by (induction evs) (simp_all add: client_view_def)

lemma tool_call_write_outward: "tool_call_write e \<Longrightarrow> outward e"
  by (cases e) simp_all

lemma POST_tool_calls:
  "length (filter tool_call_write (trace w (snd (POST env b w)))) \<le> 5"
proof (cases "preconditions env b")
  case None
  from POST_rejected [OF None, of w] show ?thesis by (simp add: trace_def)
next
  case (Some q)
  obtain u uid m um where "q = (u, uid, m, um)" by (cases q) auto
  with Some POST_passed [of env b u uid m um w]
  have P: "POST env b w = submit env u uid b m um (emit Auth w)" by simp
  show ?thesis
  proof (cases "fst (submit env u uid b m um (emit Auth w)) = DataStreamResponse")
    case False
    from submit_refused [OF False] obtain t where
      "trace w (snd (POST env b w)) = Auth # t" and "\<forall>y\<in>set t. \<not> outward y"
      by (auto simp: P trace_def)
    then have "filter tool_call_write (trace w (snd (POST env b w))) = []"
      by (auto simp: filter_empty_conv dest: tool_call_write_outward)
    then show ?thesis by simp
  next
    case True
    from submit_fails [OF True, of False] obtain w2 t where
      w2: "snd (POST env b w) = execute env u b m (uuid env) w2"
      and e2: "effects w2 = effects w @ Auth # t" and q: "\<forall>y\<in>set t. \<not> outward y"
      by (auto simp: P)
    from execute_first [of env u b m "uuid env" w2] obtain x where
      x: "effects (execute env u b m (uuid env) w2) = effects w2 @ x" by auto
    with e2 w2 have T: "trace w (snd (POST env b w)) = (Auth # t) @ trace w2 (execute env u b m (uuid env) w2)"
      by (simp add: trace_def)
    from q have "filter tool_call_write (Auth # t) = []"
      by (auto simp: filter_empty_conv dest: tool_call_write_outward)
    with T execute_tool_calls [of w2 env u b m "uuid env"] show ?thesis by simp
  qed
qed

lemma POST_persists_user_row:
  assumes "session_of env = Some s" and "session_user s = Some u"
    and "user_id u = Some uid" and "uid \<noteq> []"
    and "find (\<lambda>m. model_id m = body_modelId b) (models env) = Some m"
    and "getMostRecentUserMessage (body_messages b) = Some um"
    and "trace w (snd (POST env b w)) = pre @ x # post" and "outward x"
  shows "Store (AppendMessages [user_row env (body_id b) um]) True \<in> set pre
         \<and> (chats w (body_id b) = None \<longrightarrow>
              Store (CreateChat \<lparr>chat_id = body_id b, chat_userId = uid,
                                 chat_title = title_of env um\<rparr>) True \<in> set pre)
         \<and> user_row env (body_id b) um \<in> set (messages (snd (POST env b w)))
         \<and> chats (snd (POST env b w)) (body_id b) \<noteq> None"
proof -
  from assms(1-6) have pre: "preconditions env b = Some (u, uid, m, um)"
    by (simp add: preconditions_def)
  from POST_passed [OF pre, of w]
  have P: "POST env b w = submit env u uid b m um (emit Auth w)" by simp
  show ?thesis
  proof (cases "fst (submit env u uid b m um (emit Auth w)) = DataStreamResponse")
    case False
    from submit_refused [OF False] obtain t where
      "effects (snd (POST env b w)) = effects w @ [Auth] @ t" and q: "\<forall>y\<in>set t. \<not> outward y"
      by (auto simp: P)
    then have "trace w (snd (POST env b w)) = Auth # t" by (simp add: trace_def)
    with assms(7) have "x \<in> set (Auth # t)" by (metis in_set_conv_decomp)
    with q assms(8) show ?thesis by auto
  next
    case True
    from submit_streams [OF True] obtain w2 t where
      w2: "snd (POST env b w) = execute env u b m (uuid env) w2"
      and e2: "effects w2 = effects w @ [Auth] @ t
                  @ [Store (AppendMessages [user_row env (body_id b) um]) True]"
      and q: "\<forall>y\<in>set t. \<not> outward y"
      and c: "chats w (body_id b) = None \<longrightarrow>
                 Store (CreateChat \<lparr>chat_id = body_id b, chat_userId = uid,
                                    chat_title = title_of env um\<rparr>) True \<in> set t"
      and m2: "messages w2 = messages w @ [user_row env (body_id b) um]"
      and c2: "chats w2 (body_id b) \<noteq> None"
      by (auto simp: P)
    from execute_first [of env u b m "uuid env" w2] obtain rest where
      "effects (snd (POST env b w)) = effects w2 @ rest" by (auto simp: w2)
    with e2 have "trace w (snd (POST env b w)) =
        (Auth # t @ [Store (AppendMessages [user_row env (body_id b) um]) True]) @ rest"
      by (simp add: trace_def)
    with assms(7) have "pre @ x # post =
        (Auth # t @ [Store (AppendMessages [user_row env (body_id b) um]) True]) @ rest"
      by simp
    from quiet_prefix [OF this assms(8)] q obtain r where
      "pre = (Auth # t @ [Store (AppendMessages [user_row env (body_id b) um]) True]) @ r"
      by auto
    with c have 1: "Store (AppendMessages [user_row env (body_id b) um]) True \<in> set pre"
      and 2: "chats w (body_id b) = None \<longrightarrow>
              Store (CreateChat \<lparr>chat_id = body_id b, chat_userId = uid,
                                 chat_title = title_of env um\<rparr>) True \<in> set pre"
      by auto
    from execute_store [of env u b m "uuid env" w2] m2 c2 w2
    have 3: "user_row env (body_id b) um \<in> set (messages (snd (POST env b w)))"
      and 4: "chats (snd (POST env b w)) (body_id b) \<noteq> None"
      by auto
    from 1 2 3 4 show ?thesis by simp
  qed
qed

lemma ex_trace:
  "trace ex_world (snd (POST ex_env ex_body ex_world)) =
     ex_before @ StreamWrite (Metadata ''user-message-id'' ''uuid-1'') # ex_after"
  by code_simp

lemma ex_passes:
  "session_of ex_env = Some ex_session" "session_user ex_session = Some ex_user"
  "user_id ex_user = Some ''alice''"
  "find (\<lambda>m. model_id m = body_modelId ex_body) (models ex_env) = Some ex_model"
  "getMostRecentUserMessage (body_messages ex_body) = Some ex_message"
  by code_simp+

section \<open>The claims\<close>

text \<open>
  Claim C1.  For every turn submission that passes the three checks, the chat record
  (created when absent) and the triggering user message are persisted before the
  generation is started and before anything is written to the client's stream.  The
  triggering message \<open>um\<close> is a user-authored message of the submitted history; its row
  carries its id, role and content, the chat's id and the time of the write.  Whenever
  the trace of \<open>POST\<close> holds an effect \<open>x\<close> that starts the generation or writes to or ends
  the stream, the successful write of exactly this row precedes \<open>x\<close>, and so does the
  successful creation of the chat, owned by the caller, when the store had none; the row
  and the chat are in the store when the handler is done.
\<close>

theorem POST_persists_before_output:
  assumes "session_of env = Some s" and "session_user s = Some u"
    and "user_id u = Some uid" and "uid \<noteq> []"
    and "find (\<lambda>m. model_id m = body_modelId b) (models env) = Some m"
    and "getMostRecentUserMessage (body_messages b) = Some um"
    and "trace w (snd (POST env b w)) = pre @ x # post" and "outward x"
  shows "um \<in> set (body_messages b) \<and> msg_role um = User
         \<and> Store (AppendMessages
               [\<lparr>row_id = msg_id um, row_chatId = body_id b, row_role = User,
                 row_content = msg_content um,
                 row_createdAt = clock env SaveUserMessage_POST\<rparr>]) True \<in> set pre
         \<and> (chats w (body_id b) = None \<longrightarrow>
              Store (CreateChat \<lparr>chat_id = body_id b, chat_userId = uid,
                                 chat_title = title_of env um\<rparr>) True \<in> set pre)
         \<and> \<lparr>row_id = msg_id um, row_chatId = body_id b, row_role = User,
             row_content = msg_content um,
             row_createdAt = clock env SaveUserMessage_POST\<rparr>
              \<in> set (messages (snd (POST env b w)))
         \<and> chats (snd (POST env b w)) (body_id b) \<noteq> None"
proof -
  from most_recent_user [OF assms(6)]
  have um: "um \<in> set (body_messages b)" and role: "msg_role um = User" by simp_all
  from role have r_eq: "user_row env (body_id b) um =
      \<lparr>row_id = msg_id um, row_chatId = body_id b, row_role = User,
        row_content = msg_content um, row_createdAt = clock env SaveUserMessage_POST\<rparr>"
    by (simp add: user_row_def)
  from POST_persists_user_row [OF assms] um role show ?thesis
    unfolding r_eq by blast
qed

theorem POST_persists_before_output_witness:
  "session_of ex_env = Some ex_session \<and> session_user ex_session = Some ex_user
   \<and> user_id ex_user = Some ''alice'' \<and> ''alice'' \<noteq> []
   \<and> find (\<lambda>m. model_id m = body_modelId ex_body) (models ex_env) = Some ex_model
   \<and> getMostRecentUserMessage (body_messages ex_body) = Some ex_message
   \<and> trace ex_world (snd (POST ex_env ex_body ex_world))
        = ex_before @ StreamWrite (Metadata ''user-message-id'' ''uuid-1'') # ex_after
   \<and> outward (StreamWrite (Metadata ''user-message-id'' ''uuid-1''))
   \<and> chats ex_world ''c1'' = None
   \<and> ex_message \<in> set (body_messages ex_body) \<and> msg_role ex_message = User
   \<and> Store (AppendMessages
         [\<lparr>row_id = ''u1'', row_chatId = ''c1'', row_role = User,
           row_content = [TextPart ''get my wallet''], row_createdAt = 0\<rparr>]) True
        \<in> set ex_before
   \<and> Store (CreateChat \<lparr>chat_id = ''c1'', chat_userId = ''alice'',
                         chat_title = ''Wallet''\<rparr>) True \<in> set ex_before
   \<and> \<lparr>row_id = ''u1'', row_chatId = ''c1'', row_role = User,
       row_content = [TextPart ''get my wallet''], row_createdAt = 0\<rparr>
        \<in> set (messages (snd (POST ex_env ex_body ex_world)))
   \<and> chats (snd (POST ex_env ex_body ex_world)) ''c1'' \<noteq> None"
proof -
  have 4: "''alice'' \<noteq> []" by simp
  have 8: "outward (StreamWrite (Metadata ''user-message-id'' ''uuid-1''))" by simp
  have 9: "chats ex_world ''c1'' = None" by (simp add: ex_world_def)
  have v: "msg_id ex_message = ''u1''" "msg_content ex_message = [TextPart ''get my wallet'']"
    "body_id ex_body = ''c1''" "clock ex_env SaveUserMessage_POST = 0"
    "title_of ex_env ex_message = ''Wallet''"
    by (simp_all add: ex_message_def ex_body_def ex_env_def)
  from POST_persists_before_output [OF ex_passes(1-3) 4 ex_passes(4,5) ex_trace 8]
       ex_passes 4 ex_trace 8 9
  show ?thesis unfolding v by blast
qed

text \<open>
  Claim C2.  When the finish-time write of the sanitized response messages fails with a
  store error, the error is caught and logged and nothing else happens: the trace ends
  with the finish event, the failed write, the console line and the closing of the
  stream; the stream never enters its error state and carries no error event; and the
  client observes exactly what it observes when the write succeeds.
\<close>

theorem finish_write_failure_absorbed:
  assumes "fst (POST env b w) = DataStreamResponse"
    and "find (\<lambda>m. model_id m = body_modelId b) (models env) = Some m"
    and "streamText (turn_config env b m) (llm env) (engine_id env) = (events, Some generated)"
    and "fails env SaveResponse_onFinish"
  shows "(\<exists>pre. trace w (snd (POST env b w)) =
            pre @ [StreamWrite (Finish generated),
                   Store (AppendMessages (map (response_row env (body_id b))
                            (sanitizeResponseMessages generated))) False,
                   ConsoleError ''Failed to save chat'',
                   StreamClosed])
         \<and> StreamErrored \<notin> set (trace w (snd (POST env b w)))
         \<and> StreamWrite ErrorEvent \<notin> set (trace w (snd (POST env b w)))
         \<and> client_view (trace w (snd (POST env b w))) =
             client_view (trace w (snd (POST
               (env\<lparr>fails := (fails env)(SaveResponse_onFinish := False)\<rparr>) b w)))"
proof -
  let ?env' = "env\<lparr>fails := (fails env)(SaveResponse_onFinish := False)\<rparr>"
  let ?rows = "map (response_row env (body_id b)) (sanitizeResponseMessages generated)"
  let ?head = "[StreamWrite (Metadata ''user-message-id'' (uuid env)),
                GenerationStart (turn_config env b m),
                ConsoleLog ''carmen:chat:api:chat:finish'']"
  from assms(1) obtain u uid m' um where pre: "preconditions env b = Some (u, uid, m', um)"
    by (rule POST_streams)
  with assms(2) preconditions_find [OF pre] have m: "m' = m" and tr: "truthy (user_id u)"
    by simp_all
  from POST_passed [OF pre, of w] m
  have P: "POST env b w = submit env u uid b m um (emit Auth w)" by simp
  from pre have "preconditions ?env' b = Some (u, uid, m', um)" by simp
  from POST_passed [OF this, of w] m
  have P': "POST ?env' b w = submit ?env' u uid b m um (emit Auth w)" by simp
  from assms(1) P have "fst (submit env u uid b m um (emit Auth w)) = DataStreamResponse"
    by simp
  from submit_fails [OF this, of False] obtain w2 t where
    w2: "snd (POST env b w) = execute env u b m (uuid env) w2"
    and w2': "snd (POST ?env' b w) = execute ?env' u b m (uuid env) w2"
    and e2: "effects w2 = effects w @ Auth # t" and q: "\<forall>y\<in>set t. \<not> outward y"
    by (auto simp: P P')
  from assms(3) obtain evs where evs: "events = evs @ [Finish generated]"
    and st: "steps (cfg_maxSteps (turn_config env b m)) (llm env) (engine_id env)
               (cfg_messages (turn_config env b m)) [] = (evs, Some generated)"
    by (auto simp: streamText_def split: prod.splits option.splits)
  from steps_events [of "cfg_maxSteps (turn_config env b m)" "llm env" "engine_id env"
                        "cfg_messages (turn_config env b m)" "[]"] st
  have noerr: "ErrorEvent \<notin> set evs" by simp
  from execute_finished(1) [OF assms(3) tr, of "uuid env" w2] assms(4) e2 w2
  have T: "trace w (snd (POST env b w)) =
             Auth # t @ ?head @ map StreamWrite events
               @ [Store (AppendMessages ?rows) False, ConsoleError ''Failed to save chat'',
                  StreamClosed]"
    by (simp add: trace_def)
  have "streamText (turn_config ?env' b m) (llm ?env') (engine_id ?env') = (events, Some generated)"
    using assms(3) by simp
  from execute_finished(1) [OF this tr, of "uuid env" w2] e2 w2'
  have T': "trace w (snd (POST ?env' b w)) =
             Auth # t @ ?head @ map StreamWrite events
               @ [Store (AppendMessages (map (response_row ?env' (body_id b))
                     (sanitizeResponseMessages generated))) True, StreamClosed]"
    by (simp add: trace_def)
  have 1: "\<exists>pre. trace w (snd (POST env b w)) =
            pre @ [StreamWrite (Finish generated), Store (AppendMessages ?rows) False,
                   ConsoleError ''Failed to save chat'', StreamClosed]"
    by (rule exI [of _ "Auth # t @ ?head @ map StreamWrite evs"]) (simp add: T evs)
  from q have q': "StreamErrored \<notin> set t" "StreamWrite ErrorEvent \<notin> set t" by auto
  from q' noerr have 2: "StreamErrored \<notin> set (trace w (snd (POST env b w)))"
    and 3: "StreamWrite ErrorEvent \<notin> set (trace w (snd (POST env b w)))"
    by (auto simp: T evs)
  have "client_view (Auth # t) = []"
    using q by (intro client_view_quiet) auto
  then have 4: "client_view (trace w (snd (POST env b w))) =
                client_view (trace w (snd (POST ?env' b w)))"
    unfolding T T' using client_view_append [of "Auth # t"]
    by (simp add: client_view_def)
  from 1 2 3 4 show ?thesis by blast
qed

theorem finish_write_failure_absorbed_witness:
  "fst (POST (ex_env\<lparr>fails := (\<lambda>c. c = SaveResponse_onFinish)\<rparr>) ex_body ex_world)
      = DataStreamResponse
   \<and> find (\<lambda>m. model_id m = body_modelId ex_body)
        (models (ex_env\<lparr>fails := (\<lambda>c. c = SaveResponse_onFinish)\<rparr>)) = Some ex_model
   \<and> streamText (turn_config (ex_env\<lparr>fails := (\<lambda>c. c = SaveResponse_onFinish)\<rparr>) ex_body ex_model)
        (llm (ex_env\<lparr>fails := (\<lambda>c. c = SaveResponse_onFinish)\<rparr>))
        (engine_id (ex_env\<lparr>fails := (\<lambda>c. c = SaveResponse_onFinish)\<rparr>))
      = (ex_events, Some ex_generated)
   \<and> fails (ex_env\<lparr>fails := (\<lambda>c. c = SaveResponse_onFinish)\<rparr>) SaveResponse_onFinish
   \<and> StreamErrored \<notin> set (trace ex_world (snd
         (POST (ex_env\<lparr>fails := (\<lambda>c. c = SaveResponse_onFinish)\<rparr>) ex_body ex_world)))
   \<and> StreamWrite ErrorEvent \<notin> set (trace ex_world (snd
         (POST (ex_env\<lparr>fails := (\<lambda>c. c = SaveResponse_onFinish)\<rparr>) ex_body ex_world)))
   \<and> client_view (trace ex_world (snd
         (POST (ex_env\<lparr>fails := (\<lambda>c. c = SaveResponse_onFinish)\<rparr>) ex_body ex_world)))
      = StreamWrite (Metadata ''user-message-id'' ''uuid-1'') # map StreamWrite ex_events
          @ [StreamClosed]
   \<and> messages (snd (POST (ex_env\<lparr>fails := (\<lambda>c. c = SaveResponse_onFinish)\<rparr>) ex_body ex_world))
      = [user_row ex_env ''c1'' ex_message]"
proof -
  let ?env = "ex_env\<lparr>fails := (\<lambda>c. c = SaveResponse_onFinish)\<rparr>"
  have 1: "fst (POST ?env ex_body ex_world) = DataStreamResponse" by code_simp
  have 2: "find (\<lambda>m. model_id m = body_modelId ex_body) (models ?env) = Some ex_model"
    by code_simp
  have 3: "streamText (turn_config ?env ex_body ex_model) (llm ?env) (engine_id ?env)
             = (ex_events, Some ex_generated)"
    by code_simp
  have 4: "fails ?env SaveResponse_onFinish" by simp
  have 5: "client_view (trace ex_world (snd (POST
              (?env\<lparr>fails := (fails ?env)(SaveResponse_onFinish := False)\<rparr>) ex_body ex_world)))
            = StreamWrite (Metadata ''user-message-id'' ''uuid-1'') # map StreamWrite ex_events
                @ [StreamClosed]"
    by code_simp
  have 6: "messages (snd (POST ?env ex_body ex_world)) = [user_row ex_env ''c1'' ex_message]"
    by code_simp
  from finish_write_failure_absorbed [OF 1 2 3 4] 5
  have "StreamErrored \<notin> set (trace ex_world (snd (POST ?env ex_body ex_world)))
      \<and> StreamWrite ErrorEvent \<notin> set (trace ex_world (snd (POST ?env ex_body ex_world)))
      \<and> client_view (trace ex_world (snd (POST ?env ex_body ex_world)))
          = StreamWrite (Metadata ''user-message-id'' ''uuid-1'') # map StreamWrite ex_events
              @ [StreamClosed]"
    by simp
  with 1 2 3 4 6 show ?thesis by blast
qed

text \<open>
  Claim C3.  The message sanitizer is idempotent: sanitizing an already sanitized
  message list gives the same list, for every message list.
\<close>

theorem sanitize_idempotent:
  "sanitizeResponseMessages (sanitizeResponseMessages M) = sanitizeResponseMessages M"
proof -
  have "sanitizeResponseMessages (sanitizeResponseMessages M)
          = List.map_filter (sanitize_message (toolResultIds M)) (sanitizeResponseMessages M)"
    by (simp add: sanitizeResponseMessages_def [of "sanitizeResponseMessages M"]
                  toolResultIds_sanitize)
  also have "\<dots> = sanitizeResponseMessages M"
    by (simp add: sanitizeResponseMessages_def [of M] map_filter_fixed)
  finally show ?thesis .
qed

theorem sanitize_idempotent_witness:
  "sanitizeResponseMessages (sanitizeResponseMessages
      [\<lparr>msg_id = ''a'', msg_role = Assistant,
        msg_content = [TextPart ''x'', ToolCallPart ''k1'' ''t'', ToolCallPart ''k2'' ''t'']\<rparr>,
       \<lparr>msg_id = ''b'', msg_role = Tool, msg_content = [ToolResultPart ''k2'' ''t'' ''r'']\<rparr>,
       \<lparr>msg_id = ''c'', msg_role = Assistant, msg_content = [ToolCallPart ''k3'' ''t'']\<rparr>])
    = [\<lparr>msg_id = ''a'', msg_role = Assistant,
        msg_content = [TextPart ''x'', ToolCallPart ''k2'' ''t'']\<rparr>,
       \<lparr>msg_id = ''b'', msg_role = Tool, msg_content = [ToolResultPart ''k2'' ''t'' ''r'']\<rparr>]"
proof -
  have "sanitizeResponseMessages
      [\<lparr>msg_id = ''a'', msg_role = Assistant,
        msg_content = [TextPart ''x'', ToolCallPart ''k1'' ''t'', ToolCallPart ''k2'' ''t'']\<rparr>,
       \<lparr>msg_id = ''b'', msg_role = Tool, msg_content = [ToolResultPart ''k2'' ''t'' ''r'']\<rparr>,
       \<lparr>msg_id = ''c'', msg_role = Assistant, msg_content = [ToolCallPart ''k3'' ''t'']\<rparr>]
    = [\<lparr>msg_id = ''a'', msg_role = Assistant,
        msg_content = [TextPart ''x'', ToolCallPart ''k2'' ''t'']\<rparr>,
       \<lparr>msg_id = ''b'', msg_role = Tool, msg_content = [ToolResultPart ''k2'' ''t'' ''r'']\<rparr>]"
    by code_simp
  with sanitize_idempotent [of "[\<lparr>msg_id = ''a'', msg_role = Assistant,
        msg_content = [TextPart ''x'', ToolCallPart ''k1'' ''t'', ToolCallPart ''k2'' ''t'']\<rparr>,
       \<lparr>msg_id = ''b'', msg_role = Tool, msg_content = [ToolResultPart ''k2'' ''t'' ''r'']\<rparr>,
       \<lparr>msg_id = ''c'', msg_role = Assistant, msg_content = [ToolCallPart ''k3'' ''t'']\<rparr>]"]
  show ?thesis by simp
qed

text \<open>
  Claim C4.  The checks come before any streaming and any persistence, in the order of
  lines 52--68: an unauthenticated caller receives the plain response 401; an
  authenticated caller with an unknown model selector receives 404; an authenticated
  caller with a known model and a history without a user-authored message receives 400.
  In each case the handler has only resolved the session: the chats and the messages of
  the store are unchanged and the trace holds no store call and no stream event.
\<close>

theorem POST_checks:
  "(unauthenticated (session_of env) \<longrightarrow>
      POST env b w = (Response 401 ''Unauthorized'', emit Auth w))
   \<and> (\<not> unauthenticated (session_of env)
        \<and> body_modelId b \<notin> set (map model_id (models env)) \<longrightarrow>
      POST env b w = (Response 404 ''Model not found'', emit Auth w))
   \<and> (\<not> unauthenticated (session_of env)
        \<and> body_modelId b \<in> set (map model_id (models env))
        \<and> (\<forall>m\<in>set (body_messages b). msg_role m \<noteq> User) \<longrightarrow>
      POST env b w = (Response 400 ''No user message found'', emit Auth w))
   \<and> chats (emit Auth w) = chats w \<and> messages (emit Auth w) = messages w
   \<and> trace w (emit Auth w) = [Auth]"
proof -
  have a: "unauthenticated (session_of env) \<Longrightarrow>
      POST env b w = (Response 401 ''Unauthorized'', emit Auth w)"
    by (auto simp: unauthenticated_def POST_def auth_def truthy_def split: option.splits)
  have b: "\<not> unauthenticated (session_of env) \<Longrightarrow>
      body_modelId b \<notin> set (map model_id (models env)) \<Longrightarrow>
      POST env b w = (Response 404 ''Model not found'', emit Auth w)"
  proof -
    assume u: "\<not> unauthenticated (session_of env)"
      and "body_modelId b \<notin> set (map model_id (models env))"
    then have "find (\<lambda>m. model_id m = body_modelId b) (models env) = None"
      by (force simp: find_None)
    with u show ?thesis
      by (auto simp: unauthenticated_def POST_def auth_def truthy_def split: option.splits)
  qed
  have c: "\<not> unauthenticated (session_of env) \<Longrightarrow>
      body_modelId b \<in> set (map model_id (models env)) \<Longrightarrow>
      \<forall>m\<in>set (body_messages b). msg_role m \<noteq> User \<Longrightarrow>
      POST env b w = (Response 400 ''No user message found'', emit Auth w)"
  proof -
    assume u: "\<not> unauthenticated (session_of env)"
      and k: "body_modelId b \<in> set (map model_id (models env))"
      and n: "\<forall>m\<in>set (body_messages b). msg_role m \<noteq> User"
    from k have "find (\<lambda>m. model_id m = body_modelId b) (models env) \<noteq> None"
      by (auto simp: find_None)
    with u no_user_message [OF n] show ?thesis
      by (auto simp: unauthenticated_def POST_def auth_def truthy_def split: option.splits)
  qed
  from a b c show ?thesis by (simp add: trace_def)
qed

theorem POST_checks_witness:
  "unauthenticated (session_of (ex_env\<lparr>session_of := None\<rparr>))
   \<and> POST (ex_env\<lparr>session_of := None\<rparr>) ex_body ex_world
       = (Response 401 ''Unauthorized'', emit Auth ex_world)
   \<and> \<not> unauthenticated (session_of ex_env)
   \<and> body_modelId (ex_body\<lparr>body_modelId := ''nope''\<rparr>) \<notin> set (map model_id (models ex_env))
   \<and> POST ex_env (ex_body\<lparr>body_modelId := ''nope''\<rparr>) ex_world
       = (Response 404 ''Model not found'', emit Auth ex_world)
   \<and> body_modelId (ex_body\<lparr>body_messages := []\<rparr>) \<in> set (map model_id (models ex_env))
   \<and> list_all (\<lambda>m. msg_role m \<noteq> User) (body_messages (ex_body\<lparr>body_messages := []\<rparr>))
   \<and> POST ex_env (ex_body\<lparr>body_messages := []\<rparr>) ex_world
       = (Response 400 ''No user message found'', emit Auth ex_world)
   \<and> chats (emit Auth ex_world) = chats ex_world
   \<and> messages (emit Auth ex_world) = messages ex_world
   \<and> trace ex_world (emit Auth ex_world) = [Auth]"
proof -
  have 1: "unauthenticated (session_of (ex_env\<lparr>session_of := None\<rparr>))"
    by (simp add: unauthenticated_def)
  have 2: "\<not> unauthenticated (session_of ex_env)"
    by (simp add: unauthenticated_def ex_env_def ex_session_def ex_user_def truthy_def)
  have 3: "body_modelId (ex_body\<lparr>body_modelId := ''nope''\<rparr>) \<notin> set (map model_id (models ex_env))"
    by (simp add: ex_env_def ex_model_def)
  have 4: "body_modelId (ex_body\<lparr>body_messages := []\<rparr>) \<in> set (map model_id (models ex_env))"
    by (simp add: ex_env_def ex_model_def ex_body_def)
  have 5: "\<forall>m\<in>set (body_messages (ex_body\<lparr>body_messages := []\<rparr>)). msg_role m \<noteq> User"
    by simp
  have 6: "list_all (\<lambda>m. msg_role m \<noteq> User) (body_messages (ex_body\<lparr>body_messages := []\<rparr>))"
    by simp
  from POST_checks [of "ex_env\<lparr>session_of := None\<rparr>" ex_body ex_world]
       POST_checks [of ex_env "ex_body\<lparr>body_modelId := ''nope''\<rparr>" ex_world]
       POST_checks [of ex_env "ex_body\<lparr>body_messages := []\<rparr>" ex_world]
       1 2 3 4 5 6
  show ?thesis by blast
qed

text \<open>
  Claim C5, as amended.  For every successful turn submission the first event written to
  the stream is a metadata event, under the key \<^verbatim>\<open>user-message-id\<close>, that carries the
  identifier \<^verbatim>\<open>generateUUID()\<close> has just returned; it is written before the generation
  is started, and nothing reaches the client or the engine before it.
\<close>

theorem POST_first_event:
  assumes "fst (POST env b w) = DataStreamResponse"
    and "find (\<lambda>m. model_id m = body_modelId b) (models env) = Some m"
  shows "\<exists>pre post. trace w (snd (POST env b w)) =
            pre @ [StreamWrite (Metadata ''user-message-id'' (uuid env)),
                   GenerationStart (turn_config env b m)] @ post
          \<and> (\<forall>x\<in>set pre. \<not> outward x)"
proof -
  from assms(1) obtain u uid m' um where pre: "preconditions env b = Some (u, uid, m', um)"
    by (rule POST_streams)
  with assms(2) preconditions_find [OF pre] have m: "m' = m" by simp
  from POST_passed [OF pre, of w] m
  have P: "POST env b w = submit env u uid b m um (emit Auth w)" by simp
  with assms(1) have "fst (submit env u uid b m um (emit Auth w)) = DataStreamResponse"
    by simp
  from submit_fails [OF this, of False] obtain w2 t where
    w2: "snd (POST env b w) = execute env u b m (uuid env) w2"
    and e2: "effects w2 = effects w @ Auth # t" and q: "\<forall>y\<in>set t. \<not> outward y"
    by (auto simp: P)
  from execute_first [of env u b m "uuid env" w2] obtain post where
    "effects (snd (POST env b w)) =
       effects w2 @ [StreamWrite (Metadata ''user-message-id'' (uuid env)),
                     GenerationStart (turn_config env b m)] @ post"
    by (auto simp: w2)
  with e2 have "trace w (snd (POST env b w)) =
      (Auth # t) @ [StreamWrite (Metadata ''user-message-id'' (uuid env)),
                    GenerationStart (turn_config env b m)] @ post"
    by (simp add: trace_def)
  moreover from q have "\<forall>x\<in>set (Auth # t). \<not> outward x" by simp
  ultimately show ?thesis by blast
qed

theorem POST_first_event_witness:
  "fst (POST ex_env ex_body ex_world) = DataStreamResponse
   \<and> find (\<lambda>m. model_id m = body_modelId ex_body) (models ex_env) = Some ex_model
   \<and> (\<exists>pre post. trace ex_world (snd (POST ex_env ex_body ex_world)) =
            pre @ [StreamWrite (Metadata ''user-message-id'' (uuid ex_env)),
                   GenerationStart (turn_config ex_env ex_body ex_model)] @ post
          \<and> (\<forall>x\<in>set pre. \<not> outward x))
   \<and> uuid ex_env = ''uuid-1''"
proof -
  have 1: "fst (POST ex_env ex_body ex_world) = DataStreamResponse" by code_simp
  have 2: "uuid ex_env = ''uuid-1''" by (simp add: ex_env_def)
  from POST_first_event [OF 1 ex_passes(4)] 1 2 ex_passes(4) show ?thesis by blast
qed

text \<open>
  The claim as stated calls the identifier that of the eventual assistant message.  In
  the run below the first event carries \<open>uuid-1\<close>, and the one assistant message of the
  turn carries the engine's identifier \<open>msg\<close>, in the finish event and in the store.
\<close>

theorem announced_id_counterexample:
  "fst (POST ex_text_env ex_body ex_world) = DataStreamResponse
   \<and> client_view (trace ex_world (snd (POST ex_text_env ex_body ex_world))) =
       [StreamWrite (Metadata ''user-message-id'' ''uuid-1''),
        StreamWrite (TextDelta ''Hello''),
        StreamWrite (Finish [\<lparr>msg_id = ''msg'', msg_role = Assistant,
                               msg_content = [TextPart ''Hello'']\<rparr>]),
        StreamClosed]
   \<and> messages (snd (POST ex_text_env ex_body ex_world)) =
       [\<lparr>row_id = ''u1'', row_chatId = ''c1'', row_role = User,
         row_content = [TextPart ''get my wallet''], row_createdAt = 0\<rparr>,
        \<lparr>row_id = ''msg'', row_chatId = ''c1'', row_role = Assistant,
         row_content = [TextPart ''Hello''], row_createdAt = 0\<rparr>]
   \<and> ''uuid-1'' \<noteq> ''msg''"
  by code_simp

text \<open>
  Claim C6.  A deletion requested by an authenticated caller who does not own the chat
  that the store returns is answered with 401; the store is not asked to delete: its
  chats and messages are unchanged, and the trace holds the session lookup and the chat
  lookup only.
\<close>

theorem DELETE_not_owner:
  assumes "i \<noteq> []" and "session_of env = Some s" and "session_user s = Some u"
    and "fst (getChatById env GetChat_DELETE i w) = Inr (Some ch)"
    and "Some (chat_userId ch) \<noteq> user_id u"
  shows "fst (DELETE env (Some i) w) = Response 401 ''Unauthorized''
         \<and> chats (snd (DELETE env (Some i) w)) = chats w
         \<and> messages (snd (DELETE env (Some i) w)) = messages w
         \<and> trace w (snd (DELETE env (Some i) w)) = [Auth, Store (GetChat i) True]"
  using assms
  by (auto simp: DELETE_def auth_def DELETE_try_def getChatById_def split: if_splits)

theorem DELETE_not_owner_witness:
  "''c1'' \<noteq> [] \<and> session_of ex_env = Some ex_session \<and> session_user ex_session = Some ex_user
   \<and> fst (getChatById ex_env GetChat_DELETE ''c1'' ex_store) = Inr (Some ex_chat)
   \<and> Some (chat_userId ex_chat) \<noteq> user_id ex_user
   \<and> fst (DELETE ex_env (Some ''c1'') ex_store) = Response 401 ''Unauthorized''
   \<and> chats (snd (DELETE ex_env (Some ''c1'') ex_store)) = chats ex_store
   \<and> messages (snd (DELETE ex_env (Some ''c1'') ex_store)) = messages ex_store
   \<and> trace ex_store (snd (DELETE ex_env (Some ''c1'') ex_store))
        = [Auth, Store (GetChat ''c1'') True]"
proof -
  have 1: "''c1'' \<noteq> []" by simp
  have 2: "session_of ex_env = Some ex_session" by (simp add: ex_env_def)
  have 3: "session_user ex_session = Some ex_user" by (simp add: ex_session_def)
  have 4: "fst (getChatById ex_env GetChat_DELETE ''c1'' ex_store) = Inr (Some ex_chat)"
    by (simp add: getChatById_def ex_env_def ex_store_def)
  have 5: "Some (chat_userId ex_chat) \<noteq> user_id ex_user"
    by (simp add: ex_chat_def ex_user_def)
  from DELETE_not_owner [OF 1 2 3 4 5] 1 2 3 4 5 show ?thesis by blast
qed

text \<open>
  Claim C7.  A deletion requested by an authenticated caller for an id under which the
  store holds no chat is answered with 500, not with a success; the store is unchanged.
\<close>

theorem DELETE_missing_chat:
  assumes "i \<noteq> []" and "session_of env = Some s" and "session_user s = Some u"
    and "chats w i = None"
  shows "fst (DELETE env (Some i) w)
           = Response 500 ''An error occurred while processing your request''
         \<and> chats (snd (DELETE env (Some i) w)) = chats w
         \<and> messages (snd (DELETE env (Some i) w)) = messages w"
  using assms
  by (simp add: DELETE_def auth_def DELETE_try_def getChatById_def)

theorem DELETE_missing_chat_witness:
  "''c1'' \<noteq> [] \<and> session_of ex_env = Some ex_session \<and> session_user ex_session = Some ex_user
   \<and> chats ex_world ''c1'' = None
   \<and> fst (DELETE ex_env (Some ''c1'') ex_world)
        = Response 500 ''An error occurred while processing your request''
   \<and> chats (snd (DELETE ex_env (Some ''c1'') ex_world)) = chats ex_world
   \<and> messages (snd (DELETE ex_env (Some ''c1'') ex_world)) = messages ex_world"
proof -
  have 1: "''c1'' \<noteq> []" by simp
  have 2: "session_of ex_env = Some ex_session" by (simp add: ex_env_def)
  have 3: "session_user ex_session = Some ex_user" by (simp add: ex_session_def)
  have 4: "chats ex_world ''c1'' = None" by (simp add: ex_world_def)
  from DELETE_missing_chat [OF 1 2 3 4] 1 2 3 4 show ?thesis by blast
qed

text \<open>
  Claim C8.  The route hands the engine a step budget of 5.  Whatever the model decides
  at each step, also when it calls a tool every time, a run of the engine under this
  budget ends, with a finish event or an error event as its last event, and holds at most
  5 tool calls; so does the trace of every turn submission.
\<close>

theorem step_budget:
  "cfg_maxSteps (turn_config env b m) = 5
   \<and> length (filter is_tool_call (fst (streamText (turn_config env b m) decide ids))) \<le> 5
   \<and> (\<exists>evs generated.
         streamText (turn_config env b m) decide ids = (evs @ [Finish generated], Some generated)
         \<or> streamText (turn_config env b m) decide ids = (evs @ [ErrorEvent], None))
   \<and> length (filter tool_call_write (trace w (snd (POST env b w)))) \<le> 5"
proof -
  have 1: "cfg_maxSteps (turn_config env b m) = 5" by (simp add: turn_config_def)
  have 3: "\<exists>evs generated.
         streamText (turn_config env b m) decide ids = (evs @ [Finish generated], Some generated)
         \<or> streamText (turn_config env b m) decide ids = (evs @ [ErrorEvent], None)"
    by (rule streamText_cases [of "turn_config env b m" decide ids]) blast+
  have 2: "length (filter is_tool_call (fst (streamText (turn_config env b m) decide ids))) \<le> 5"
  proof (rule streamText_cases [of "turn_config env b m" decide ids])
    fix evs generated
    assume "streamText (turn_config env b m) decide ids = (evs @ [Finish generated], Some generated)"
      and "steps (cfg_maxSteps (turn_config env b m)) decide ids
             (cfg_messages (turn_config env b m)) [] = (evs, Some generated)"
    with steps_tool_calls [of 5 decide ids "cfg_messages (turn_config env b m)" "[]"] 1
    show ?thesis by simp
  next
    fix evs
    assume "streamText (turn_config env b m) decide ids = (evs @ [ErrorEvent], None)"
      and "steps (cfg_maxSteps (turn_config env b m)) decide ids
             (cfg_messages (turn_config env b m)) [] = (evs, None)"
    with steps_tool_calls [of 5 decide ids "cfg_messages (turn_config env b m)" "[]"] 1
    show ?thesis by simp
  qed
  from 1 2 3 POST_tool_calls [of w env b] show ?thesis by blast
qed

theorem step_budget_witness:
  "cfg_maxSteps (turn_config ex_env ex_body ex_model) = 5
   \<and> length (filter is_tool_call
        (fst (streamText (turn_config ex_env ex_body ex_model) ex_eager_llm ex_ids))) \<le> 5
   \<and> length (filter is_tool_call
        (fst (streamText (turn_config ex_env ex_body ex_model) ex_eager_llm ex_ids))) = 5
   \<and> map_option length (snd
        (streamText (turn_config ex_env ex_body ex_model) ex_eager_llm ex_ids)) = Some 10
   \<and> length (filter tool_call_write (trace ex_world (snd (POST ex_env ex_body ex_world)))) \<le> 5"
proof -
  have 1: "length (filter is_tool_call
        (fst (streamText (turn_config ex_env ex_body ex_model) ex_eager_llm ex_ids))) = 5"
    by code_simp
  have 2: "map_option length (snd
        (streamText (turn_config ex_env ex_body ex_model) ex_eager_llm ex_ids)) = Some 10"
    by code_simp
  from step_budget [of ex_env ex_body ex_model ex_eager_llm ex_ids ex_world]
  have "cfg_maxSteps (turn_config ex_env ex_body ex_model) = 5
   \<and> length (filter is_tool_call
        (fst (streamText (turn_config ex_env ex_body ex_model) ex_eager_llm ex_ids))) \<le> 5
   \<and> length (filter tool_call_write (trace ex_world (snd (POST ex_env ex_body ex_world)))) \<le> 5"
    by blast
  with 1 2 show ?thesis by blast
qed




text \<open>
  Claim C10.  A deletion whose query string has no \<^verbatim>\<open>id\<close> parameter is answered with
  404 and the world is untouched: the session is not resolved, whoever the caller is.
\<close>

theorem DELETE_missing_id:
  "DELETE env None w = (Response 404 ''Not Found'', w)
   \<and> Auth \<notin> set (trace w (snd (DELETE env None w)))"
  by (simp add: DELETE_def trace_def)

theorem DELETE_missing_id_witness:
  "DELETE (ex_env\<lparr>session_of := None\<rparr>) None ex_store = (Response 404 ''Not Found'', ex_store)
   \<and> Auth \<notin> set (trace ex_store (snd (DELETE (ex_env\<lparr>session_of := None\<rparr>) None ex_store)))
   \<and> fst (DELETE (ex_env\<lparr>session_of := None\<rparr>) (Some ''c1'') ex_store)
        = Response 401 ''Unauthorized''"
proof -
  have "fst (DELETE (ex_env\<lparr>session_of := None\<rparr>) (Some ''c1'') ex_store)
          = Response 401 ''Unauthorized''"
    by code_simp
  with DELETE_missing_id [of "ex_env\<lparr>session_of := None\<rparr>" ex_store] show ?thesis by simp
qed

end
